theory Spec2Isabelle
  imports Complex_Main
begin

section \<open>JavaScript numbers\<close>

text \<open>
  The calculator of \<^verbatim>\<open>src/client/Components/Calculator.tsx\<close> computes with JavaScript
  numbers, that is IEEE 754 binary64 values, and moves between numbers and display strings
  with the built-ins \<^verbatim>\<open>Number(...)\<close> and \<^verbatim>\<open>String(...)\<close>.

  A number is \<open>NaN\<close>, one of the two infinities, the negative zero \<open>NegZero\<close>, or a
  finite value \<open>Fin q\<close> whose rational \<open>q\<close> is the exact value of the double; \<open>Fin 0\<close> is
  the positive zero. Every arithmetic result is rounded to the nearest double, ties to even,
  by \<open>fl\<close>; a result of magnitude \<open>2^1024\<close> or more becomes an infinity, and a result that
  rounds to zero keeps its sign. The two zeros are equal under \<^verbatim>\<open>===\<close> and both are
  written \<^verbatim>\<open>"0"\<close> by \<^verbatim>\<open>String\<close>, but \<^verbatim>\<open>toLocaleString\<close> tells them apart.
  The type has more finite values than there are doubles; \<open>fl\<close>, and with it every
  operation and \<open>Number\<close>, returns doubles only.
\<close>

datatype number = NaN | PosInf | NegInf | NegZero | Fin rat

definition signed_zero :: "bool \<Rightarrow> number" where
  "signed_zero neg = (if neg then NegZero else Fin 0)"

definition signed_inf :: "bool \<Rightarrow> number" where
  "signed_inf neg = (if neg then NegInf else PosInf)"

definition pow2 :: "int \<Rightarrow> rat" where
  "pow2 e = (if 0 \<le> e then 2 ^ nat e else 1 / 2 ^ nat (- e))"

definition pow10 :: "int \<Rightarrow> rat" where
  "pow10 e = (if 0 \<le> e then 10 ^ nat e else 1 / 10 ^ nat (- e))"

text \<open>\<open>ndigits b n\<close> is the number of base-\<open>b\<close> digits of a positive integer \<open>n\<close>.\<close>

function ndigits :: "int \<Rightarrow> int \<Rightarrow> int" where
  "ndigits b n = (if 1 < b \<and> 0 < n then ndigits b (n div b) + 1 else 0)"
  by pat_completeness auto
termination
proof (relation "measure (\<lambda>(b, n). nat n)")
  show "wf (measure (\<lambda>(b, n). nat n))" by simp
next
  fix b n :: int
  assume pos: "1 < b \<and> 0 < n"
  then have "n div b < n" by (simp add: int_div_less_self)
  with pos show "((b, n div b), (b, n)) \<in> measure (\<lambda>(b, n). nat n)" by simp
qed

declare ndigits.simps [simp del]

text \<open>
  For a positive rational \<open>a\<close>, \<open>floor_log2 a\<close> is the integer \<open>k\<close> with
  \<open>2^k \<le> a < 2^(k+1)\<close>, and \<open>floor_log10 a\<close> the one with \<open>10^k \<le> a < 10^(k+1)\<close>.
\<close>

definition floor_log2 :: "rat \<Rightarrow> int" where
  "floor_log2 a =
     (if 1 \<le> a then ndigits 2 \<lfloor>a\<rfloor> - 1
      else if pow2 (1 - ndigits 2 \<lfloor>1 / a\<rfloor>) \<le> a then 1 - ndigits 2 \<lfloor>1 / a\<rfloor>
      else - ndigits 2 \<lfloor>1 / a\<rfloor>)"

definition floor_log10 :: "rat \<Rightarrow> int" where
  "floor_log10 a =
     (if 1 \<le> a then ndigits 10 \<lfloor>a\<rfloor> - 1
      else if pow10 (1 - ndigits 10 \<lfloor>1 / a\<rfloor>) \<le> a then 1 - ndigits 10 \<lfloor>1 / a\<rfloor>
      else - ndigits 10 \<lfloor>1 / a\<rfloor>)"

definition round_half_even :: "rat \<Rightarrow> int" where
  "round_half_even r =
     (if r - of_int \<lfloor>r\<rfloor> < 1 / 2 then \<lfloor>r\<rfloor>
      else if 1 / 2 < r - of_int \<lfloor>r\<rfloor> then \<lfloor>r\<rfloor> + 1
      else if even \<lfloor>r\<rfloor> then \<lfloor>r\<rfloor> else \<lfloor>r\<rfloor> + 1)"

text \<open>
  Rounding to binary64: the significand has 53 bits, so a value \<open>a\<close> with
  \<open>2^k \<le> a < 2^(k+1)\<close> is rounded to a multiple of \<open>2^(k-52)\<close>; below the normal range
  the spacing stays \<open>2^(-1074)\<close> (subnormal numbers).
\<close>

definition fl_exp :: "rat \<Rightarrow> int" where
  "fl_exp a = max (floor_log2 a - 52) (- 1074)"

definition fl_range :: "rat \<Rightarrow> rat \<Rightarrow> number" where
  "fl_range q v =
     (if pow2 1024 \<le> v then signed_inf (q < 0)
      else if v = 0 then signed_zero (q < 0)
      else Fin (if 0 < q then v else - v))"

definition fl_at :: "rat \<Rightarrow> int \<Rightarrow> number" where
  "fl_at q e = fl_range q (of_int (round_half_even (\<bar>q\<bar> / pow2 e)) * pow2 e)"

definition fl :: "rat \<Rightarrow> number" where
  "fl q = (if q = 0 then Fin 0 else fl_at q (fl_exp \<bar>q\<bar>))"

fun jneg :: "number \<Rightarrow> number" where
  "jneg NaN = NaN"
| "jneg PosInf = NegInf"
| "jneg NegInf = PosInf"
| "jneg NegZero = Fin 0"
| "jneg (Fin a) = (if a = 0 then NegZero else Fin (- a))"

fun negative :: "number \<Rightarrow> bool" where
  "negative NegInf = True"
| "negative NegZero = True"
| "negative (Fin a) = (a < 0)"
| "negative _ = False"

fun isFinite :: "number \<Rightarrow> bool" where
  "isFinite (Fin a) = True"
| "isFinite NegZero = True"
| "isFinite _ = False"

text \<open>\<^verbatim>\<open>x === 0\<close> holds of both zeros.\<close>

fun isZero :: "number \<Rightarrow> bool" where
  "isZero (Fin a) = (a = 0)"
| "isZero NegZero = True"
| "isZero _ = False"

fun fin_val :: "number \<Rightarrow> rat" where
  "fin_val (Fin a) = a"
| "fin_val _ = 0"

text \<open>
  The operators \<^verbatim>\<open>+\<close>, \<^verbatim>\<open>-\<close>, \<^verbatim>\<open>*\<close> and \<^verbatim>\<open>/\<close> on numbers. A sum that is exactly zero
  is the positive zero unless both summands are the negative zero; the sign of a product or
  quotient is the product of the signs of its operands, also when it is a zero or an infinity.
\<close>

definition jadd :: "number \<Rightarrow> number \<Rightarrow> number" where
  "jadd x y =
     (if x = NaN \<or> y = NaN then NaN
      else if x = NegZero then y
      else if y = NegZero then x
      else if isFinite x \<and> isFinite y then fl (fin_val x + fin_val y)
      else if isFinite x then y
      else if isFinite y \<or> x = y then x
      else NaN)"

definition jsub :: "number \<Rightarrow> number \<Rightarrow> number" where
  "jsub x y = jadd x (jneg y)"

definition jmul :: "number \<Rightarrow> number \<Rightarrow> number" where
  "jmul x y =
     (if x = NaN \<or> y = NaN then NaN
      else if isFinite x \<and> isFinite y then
        (if isZero x \<or> isZero y then signed_zero (negative x \<noteq> negative y)
         else fl (fin_val x * fin_val y))
      else if isZero x \<or> isZero y then NaN
      else signed_inf (negative x \<noteq> negative y))"

definition jdiv :: "number \<Rightarrow> number \<Rightarrow> number" where
  "jdiv x y =
     (if x = NaN \<or> y = NaN then NaN
      else if \<not> isFinite x then
        (if isFinite y then signed_inf (negative x \<noteq> negative y) else NaN)
      else if \<not> isFinite y then signed_zero (negative x \<noteq> negative y)
      else if isZero y then
        (if isZero x then NaN else signed_inf (negative x \<noteq> negative y))
      else if isZero x then signed_zero (negative x \<noteq> negative y)
      else fl (fin_val x / fin_val y))"

section \<open>\<^verbatim>\<open>Number(string)\<close>\<close>

text \<open>
  The conversion of a string to a number follows the grammar of ECMAScript's
  \<^verbatim>\<open>StringNumericLiteral\<close>: surrounding white space is dropped, the empty string is \<open>0\<close>,
  a literal is \<^verbatim>\<open>Infinity\<close> or a decimal literal with an optional sign, fraction and
  exponent, or an unsigned binary, octal or hexadecimal integer; anything else is \<open>NaN\<close>.
  Strings are lists of 8-bit characters: the display strings of the calculator are ASCII,
  and white space beyond ASCII is not modelled.
\<close>

definition is_digit :: "char \<Rightarrow> bool" where
  "is_digit c = (48 \<le> (of_char c :: nat) \<and> (of_char c :: nat) \<le> 57)"

definition is_ws :: "char \<Rightarrow> bool" where
  "is_ws c = (c \<in> set [CHR 0x09, CHR 0x0A, CHR 0x0B, CHR 0x0C, CHR 0x0D, CHR 0x20])"

definition trim :: "string \<Rightarrow> string" where
  "trim s = rev (dropWhile is_ws (rev (dropWhile is_ws s)))"

definition digit_val :: "char \<Rightarrow> int" where
  "digit_val c =
     (if is_digit c then of_char c - 48
      else if 97 \<le> (of_char c :: nat) then of_char c - 87 else of_char c - 55)"

definition base_val :: "int \<Rightarrow> string \<Rightarrow> int" where
  "base_val b ds = foldl (\<lambda>acc c. b * acc + digit_val c) 0 ds"

definition is_base_digit :: "int \<Rightarrow> char \<Rightarrow> bool" where
  "is_base_digit b c =
     ((is_digit c \<or> c \<in> set ''abcdefABCDEF'') \<and> digit_val c < b)"

definition exp_digits :: "string \<Rightarrow> int option" where
  "exp_digits r = (if r \<noteq> [] \<and> list_all is_digit r then Some (base_val 10 r) else None)"

fun exp_signed :: "string \<Rightarrow> int option" where
  "exp_signed [] = None"
| "exp_signed (c # t) =
     (if c = CHR ''+'' then exp_digits t
      else if c = CHR ''-'' then map_option uminus (exp_digits t)
      else exp_digits (c # t))"

fun parse_exp :: "string \<Rightarrow> int option" where
  "parse_exp [] = Some 0"
| "parse_exp (c # t) = (if c = CHR ''e'' \<or> c = CHR ''E'' then exp_signed t else None)"

text \<open>
  \<open>parse_mant ip fp r\<close>: integer digits \<open>ip\<close>, fraction digits \<open>fp\<close>, and the rest \<open>r\<close> of the
  literal, which must be an exponent part or empty. At least one digit is required.
\<close>

definition parse_mant :: "string \<Rightarrow> string \<Rightarrow> string \<Rightarrow> number" where
  "parse_mant ip fp r =
     (if ip = [] \<and> fp = [] then NaN
      else case parse_exp r of
             None \<Rightarrow> NaN
           | Some e \<Rightarrow> fl (of_int (base_val 10 (ip @ fp)) * pow10 (e - int (length fp))))"

fun parse_dec :: "string \<Rightarrow> string \<Rightarrow> number" where
  "parse_dec ip [] = parse_mant ip [] []"
| "parse_dec ip (c # t) =
     (if c = CHR ''.'' then parse_mant ip (takeWhile is_digit t) (dropWhile is_digit t)
      else parse_mant ip [] (c # t))"

definition parse_unsigned :: "string \<Rightarrow> number" where
  "parse_unsigned s =
     (if s = ''Infinity'' then PosInf
      else parse_dec (takeWhile is_digit s) (dropWhile is_digit s))"

fun parse_signed :: "string \<Rightarrow> number" where
  "parse_signed [] = NaN"
| "parse_signed (c # t) =
     (if c = CHR ''+'' then parse_unsigned t
      else if c = CHR ''-'' then jneg (parse_unsigned t)
      else parse_unsigned (c # t))"

definition radix_of :: "char \<Rightarrow> int option" where
  "radix_of c =
     (if c = CHR ''x'' \<or> c = CHR ''X'' then Some 16
      else if c = CHR ''o'' \<or> c = CHR ''O'' then Some 8
      else if c = CHR ''b'' \<or> c = CHR ''B'' then Some 2
      else None)"

definition parse_radix :: "int \<Rightarrow> string \<Rightarrow> number" where
  "parse_radix b ds =
     (if ds \<noteq> [] \<and> list_all (is_base_digit b) ds then fl (of_int (base_val b ds)) else NaN)"

fun parse_literal :: "string \<Rightarrow> number" where
  "parse_literal [] = Fin 0"
| "parse_literal [c] = parse_signed [c]"
| "parse_literal (c # d # t) =
     (case (if c = CHR ''0'' then radix_of d else None) of
        Some b \<Rightarrow> parse_radix b t
      | None \<Rightarrow> parse_signed (c # d # t))"

definition Number :: "string \<Rightarrow> number" where
  "Number s = parse_literal (trim s)"

section \<open>\<^verbatim>\<open>String(number)\<close>\<close>

text \<open>
  \<^verbatim>\<open>String(v)\<close> is ECMAScript's \<^verbatim>\<open>Number::toString\<close> in radix 10. For a positive finite
  \<open>x\<close> it takes the shortest digit string \<open>s\<close> of \<open>k\<close> digits and the exponent \<open>n\<close> such that
  \<open>s \<times> 10^(n-k)\<close> rounds to \<open>x\<close> (the closest to \<open>x\<close> if several do), and writes it in
  positional notation when \<open>-6 < n \<le> 21\<close> and in exponent notation otherwise.
\<close>

definition digit_char :: "int \<Rightarrow> char" where
  "digit_char d = ''0123456789'' ! nat (d mod 10)"

function dec_digits :: "int \<Rightarrow> string" where
  "dec_digits n =
     (if n < 10 then [digit_char n] else dec_digits (n div 10) @ [digit_char (n mod 10)])"
  by pat_completeness auto
termination
proof (relation "measure nat")
  show "wf (measure nat)" by simp
next
  fix n :: int
  assume big: "\<not> n < 10"
  then have "n div 10 < n" by (simp add: int_div_less_self)
  with big show "(n div 10, n) \<in> measure nat" by simp
qed

declare dec_digits.simps [simp del]

text \<open>
  \<open>pick x u lo\<close> looks at the two multiples of the unit \<open>u\<close> around \<open>x\<close>, \<open>lo \<times> u\<close> and
  \<open>(lo + 1) \<times> u\<close>, and returns the multiplier of the one that rounds to \<open>x\<close>, the closer one
  if both do, the even one on a tie.
\<close>

definition pick2 :: "rat \<Rightarrow> rat \<Rightarrow> rat \<Rightarrow> int \<Rightarrow> int option" where
  "pick2 x vlo vhi lo =
     (if fl vlo = Fin x then
        (if fl vhi = Fin x then
           (if x - vlo < vhi - x then Some lo
            else if vhi - x < x - vlo then Some (lo + 1)
            else if even lo then Some lo else Some (lo + 1))
         else Some lo)
      else if fl vhi = Fin x then Some (lo + 1) else None)"

definition pick :: "rat \<Rightarrow> rat \<Rightarrow> int \<Rightarrow> int option" where
  "pick x u lo = pick2 x (of_int lo * u) (of_int (lo + 1) * u) lo"

definition norm_digits :: "int \<Rightarrow> int \<Rightarrow> int \<Rightarrow> int \<times> int" where
  "norm_digits s n k = (if s = 10 ^ nat k then (10 ^ nat (k - 1), n + 1) else (s, n))"

text \<open>
  \<open>shortest x n k\<close> tries \<open>k, k + 1, \<dots>\<close> digits, where \<open>10^(n-1) \<le> x < 10^n\<close>.
  Seventeen digits always identify a double; the search is cut there.
\<close>

function shortest :: "rat \<Rightarrow> int \<Rightarrow> int \<Rightarrow> int \<times> int" where
  "shortest x n k =
     (case pick x (pow10 (n - k)) \<lfloor>x / pow10 (n - k)\<rfloor> of
        Some s \<Rightarrow> norm_digits s n k
      | None \<Rightarrow> if 17 \<le> k then (\<lfloor>x / pow10 (n - k)\<rfloor>, n) else shortest x n (k + 1))"
  by pat_completeness auto
termination
  by (relation "measure (\<lambda>(x, n, k). nat (17 - k))") simp_all

declare shortest.simps [simp del]

definition fmt_exp :: "string \<Rightarrow> int \<Rightarrow> string" where
  "fmt_exp ds e =
     (if length ds = 1 then ds else take 1 ds @ ''.'' @ drop 1 ds)
     @ ''e'' @ (if e < 0 then ''-'' else ''+'') @ dec_digits \<bar>e\<bar>"

definition fmt :: "string \<Rightarrow> int \<Rightarrow> string" where
  "fmt ds n =
     (if int (length ds) \<le> n \<and> n \<le> 21 then ds @ replicate (nat (n - int (length ds))) (CHR ''0'')
      else if 0 < n \<and> n \<le> 21 then take (nat n) ds @ ''.'' @ drop (nat n) ds
      else if - 6 < n \<and> n \<le> 0 then ''0.'' @ replicate (nat (- n)) (CHR ''0'') @ ds
      else fmt_exp ds (n - 1))"

definition pos_str :: "rat \<Rightarrow> string" where
  "pos_str x =
     (case shortest x (floor_log10 x + 1) 1 of (s, n) \<Rightarrow> fmt (dec_digits s) n)"

fun String :: "number \<Rightarrow> string" where
  "String NaN = ''NaN''"
| "String PosInf = ''Infinity''"
| "String NegInf = ''-Infinity''"
| "String NegZero = ''0''"
| "String (Fin a) =
     (if a = 0 then ''0'' else if a < 0 then CHR ''-'' # pos_str (- a) else pos_str a)"

section \<open>The calculator state and its transitions\<close>

text \<open>
  \<^verbatim>\<open>type Operator = "+" | "-" | "\<times>" | "\<div>"\<close> and \<^verbatim>\<open>type CalcState\<close>; a field typed
  \<^verbatim>\<open>T | null\<close> is an option. The operator strings are non-empty, so the truth tests
  \<^verbatim>\<open>s.operator ? \<dots>\<close> and \<^verbatim>\<open>s.lastOp && \<dots>\<close> are tests against \<^verbatim>\<open>null\<close>.
\<close>

datatype Operator = Plus | Minus | Times | Divide

record CalcState =
  display :: string
  accumulator :: "number option"
  operator :: "Operator option"
  waitingForSecond :: bool
  lastOp :: "Operator option"
  lastArg :: "number option"

text \<open>The argument of \<^verbatim>\<open>useState\<close>: the state the component starts in.\<close>

definition initial :: CalcState where
  "initial =
     \<lparr>display = ''0'', accumulator = None, operator = None,
      waitingForSecond = False, lastOp = None, lastArg = None\<rparr>"

text \<open>\<^verbatim>\<open>str.replace(/,/g, "")\<close>\<close>

definition strip_commas :: "string \<Rightarrow> string" where
  "strip_commas str = filter (\<lambda>c. c \<noteq> CHR '','') str"

text \<open>
  Each handler passes an updater to \<^verbatim>\<open>setState\<close>; the updater is the transition function
  on states modelled here.
\<close>

definition clearAll :: "CalcState \<Rightarrow> CalcState" where
  "clearAll s =
     \<lparr>display = ''0'', accumulator = None, operator = None,
      waitingForSecond = False, lastOp = None, lastArg = None\<rparr>"

definition clearEntry :: "CalcState \<Rightarrow> CalcState" where
  "clearEntry s = s\<lparr>display := ''0'', waitingForSecond := (operator s \<noteq> None)\<rparr>"

definition inputDigit :: "string \<Rightarrow> CalcState \<Rightarrow> CalcState" where
  "inputDigit d s =
     (if waitingForSecond s then s\<lparr>display := d, waitingForSecond := False\<rparr>
      else if display s = ''0'' then s\<lparr>display := d\<rparr>
      else if 12 \<le> length (strip_commas (display s)) then s
      else s\<lparr>display := display s @ d\<rparr>)"

definition inputDot :: "CalcState \<Rightarrow> CalcState" where
  "inputDot s =
     (if waitingForSecond s then s\<lparr>display := ''0.'', waitingForSecond := False\<rparr>
      else if CHR ''.'' \<in> set (display s) then s
      else s\<lparr>display := display s @ ''.''\<rparr>)"

definition toggleSign :: "CalcState \<Rightarrow> CalcState" where
  "toggleSign s =
     (let raw = strip_commas (display s)
      in if raw = ''0'' then s
         else if take 1 raw = ''-'' then s\<lparr>display := drop 1 raw\<rparr>
         else s\<lparr>display := CHR ''-'' # raw\<rparr>)"

definition percent :: "CalcState \<Rightarrow> CalcState" where
  "percent s =
     (let raw = Number (strip_commas (display s))
      in if \<not> isFinite raw then s
         else if accumulator s \<noteq> None \<and> operator s \<noteq> None then
           (if operator s = Some Plus \<or> operator s = Some Minus
            then s\<lparr>display := String (jdiv (jmul (the (accumulator s)) raw) (Fin 100))\<rparr>
            else s\<lparr>display := String (jdiv raw (Fin 100))\<rparr>)
         else s\<lparr>display := String (jdiv raw (Fin 100))\<rparr>)"

fun compute :: "number \<Rightarrow> number \<Rightarrow> Operator \<Rightarrow> number" where
  "compute a b Plus = jadd a b"
| "compute a b Minus = jsub a b"
| "compute a b Times = jmul a b"
| "compute a b Divide = (if isZero b then PosInf else jdiv a b)"

definition setOperator :: "Operator \<Rightarrow> CalcState \<Rightarrow> CalcState" where
  "setOperator op s =
     (let a = accumulator s;
          b = Number (strip_commas (display s))
      in if operator s \<noteq> None \<and> \<not> waitingForSecond s \<and> a \<noteq> None then
           (let res = compute (the a) b (the (operator s))
            in \<lparr>display = String res, accumulator = Some res, operator = Some op,
                waitingForSecond = True, lastOp = None, lastArg = None\<rparr>)
         else s\<lparr>accumulator := Some b, operator := Some op, waitingForSecond := True,
                lastOp := None, lastArg := None\<rparr>)"

definition equals :: "CalcState \<Rightarrow> CalcState" where
  "equals s =
     (let a = accumulator s;
          b = Number (strip_commas (display s))
      in if operator s \<noteq> None \<and> a \<noteq> None \<and> \<not> waitingForSecond s then
           (let res = compute (the a) b (the (operator s))
            in \<lparr>display = String res, accumulator = Some res, operator = None,
                waitingForSecond = False, lastOp = operator s, lastArg = Some b\<rparr>)
         else if lastOp s \<noteq> None \<and> lastArg s \<noteq> None then
           (let res = compute b (the (lastArg s)) (the (lastOp s))
            in s\<lparr>display := String res, accumulator := Some res\<rparr>)
         else s)"

text \<open>
  \<^verbatim>\<open>onClear\<close> reads the state the component was rendered with; a click is handled on the
  current render, so that state is the one the updater receives.
\<close>

definition onClear :: "CalcState \<Rightarrow> CalcState" where
  "onClear s =
     (if display s \<noteq> ''0'' \<or> accumulator s \<noteq> None \<or> operator s \<noteq> None
      then clearEntry s else clearAll s)"

section \<open>The display formatter\<close>

text \<open>
  The literal \<^verbatim>\<open>"\<infinity>"\<close> of \<^verbatim>\<open>formatForDisplay\<close>, the one character U+221E, written here as
  its three UTF-8 bytes.
\<close>

definition infinity_sign :: string where
  "infinity_sign = [CHR 0xE2, CHR 0x88, CHR 0x9E]"

text \<open>
  \<^verbatim>\<open>formatForDisplay\<close>. The grouping of digits by \<^verbatim>\<open>toLocaleString\<close> depends on the
  locale of the browser and is the parameter \<open>toLocaleString\<close>. \<^verbatim>\<open>value.split(".")\<close> is
  destructured into its first two pieces.
\<close>

definition formatForDisplay :: "(number \<Rightarrow> string) \<Rightarrow> string \<Rightarrow> string" where
  "formatForDisplay toLocaleString val =
     (if val = infinity_sign \<or> val = ''NaN'' then val
      else if CHR ''.'' \<notin> set val then
        (let n = Number val
         in if \<not> isFinite n then val else toLocaleString n)
      else
        (let int_s = takeWhile (\<lambda>c. c \<noteq> CHR ''.'') val;
             dec = takeWhile (\<lambda>c. c \<noteq> CHR ''.'') (drop 1 (dropWhile (\<lambda>c. c \<noteq> CHR ''.'') val));
             n = Number int_s;
             intPart = (if isFinite n then toLocaleString n else int_s)
         in intPart @ ''.'' @ dec))"

section \<open>Input events\<close>

text \<open>
  The buttons of the component: ten digit keys calling \<^verbatim>\<open>inputDigit("0")\<close> to
  \<^verbatim>\<open>inputDigit("9")\<close>, the decimal point, sign toggle, percent, four operator keys, equals
  and clear. Each press runs one handler on the current state; \<open>run\<close> presses a sequence of
  buttons starting from the initial state. \<open>key\<close> says that an event is one of the buttons,
  that is, that a digit event carries one of the ten digit strings.
\<close>

datatype event =
  Digit string | DecimalPoint | ToggleSign | Percent | ChooseOperator Operator
  | Evaluate | Clear

fun step :: "CalcState \<Rightarrow> event \<Rightarrow> CalcState" where
  "step s (Digit d) = inputDigit d s"
| "step s DecimalPoint = inputDot s"
| "step s ToggleSign = toggleSign s"
| "step s Percent = percent s"
| "step s (ChooseOperator op) = setOperator op s"
| "step s Evaluate = equals s"
| "step s Clear = onClear s"

definition run :: "event list \<Rightarrow> CalcState" where
  "run es = foldl step initial es"

definition digit_keys :: "string list" where
  "digit_keys = map (\<lambda>c. [c]) ''0123456789''"

fun key :: "event \<Rightarrow> bool" where
  "key (Digit d) = (d \<in> set digit_keys)"
| "key _ = True"

text \<open>The number of decimal points in a string.\<close>

definition points :: "string \<Rightarrow> nat" where
  "points str = length (filter (\<lambda>c. c = CHR ''.'') str)"

text \<open>
  Without an accumulator the state holds no operation context: no pending operator, no
  awaited operand, no recorded last operation.
\<close>

definition no_context :: "CalcState \<Rightarrow> bool" where
  "no_context s \<longleftrightarrow>
     (accumulator s = None \<longrightarrow>
        operator s = None \<and> \<not> waitingForSecond s \<and> lastOp s = None \<and> lastArg s = None)"

section \<open>Evaluation rules\<close>

text \<open>
  The recursive functions unfold only where their argument decides the branch, and the
  floor of a fraction of numerals is an integer division.
\<close>

lemma ndigits_step: "1 < b \<Longrightarrow> 0 < n \<Longrightarrow> ndigits b n = ndigits b (n div b) + 1"
  by (simp add: ndigits.simps)

lemma ndigits_stop: "n \<le> 0 \<Longrightarrow> ndigits b n = 0"
  by (simp add: ndigits.simps)

lemma dec_digits_small: "n < 10 \<Longrightarrow> dec_digits n = [digit_char n]"
  by (simp add: dec_digits.simps)

lemma dec_digits_big:
  "10 \<le> n \<Longrightarrow> dec_digits n = dec_digits (n div 10) @ [digit_char (n mod 10)]"
  by (subst dec_digits.simps) simp

lemma shortest_found:
  "pick x (pow10 (n - k)) \<lfloor>x / pow10 (n - k)\<rfloor> \<noteq> None \<Longrightarrow>
   shortest x n k = norm_digits (the (pick x (pow10 (n - k)) \<lfloor>x / pow10 (n - k)\<rfloor>)) n k"
  by (subst shortest.simps) (auto split: option.splits)

lemma shortest_next:
  "pick x (pow10 (n - k)) \<lfloor>x / pow10 (n - k)\<rfloor> = None \<Longrightarrow> k < 17 \<Longrightarrow>
   shortest x n k = shortest x n (k + 1)"
  by (subst shortest.simps) (auto split: option.splits)

lemma floor_numeral_frac: "\<lfloor>numeral a / numeral b :: rat\<rfloor> = numeral a div numeral b"
  using floor_divide_of_int_eq [of "numeral a" "numeral b", where ?'a = rat] by simp

lemma floor_neg_numeral_frac: "\<lfloor>- (numeral a / numeral b) :: rat\<rfloor> = - numeral a div numeral b"
  using floor_divide_of_int_eq [of "- numeral a" "numeral b", where ?'a = rat] by simp

lemmas num_eval =
  floor_numeral_frac floor_neg_numeral_frac pow2_def pow10_def floor_log2_def floor_log10_def
  round_half_even_def fl_exp_def fl_range_def fl_at_def fl_def signed_zero_def signed_inf_def
  jadd_def jsub_def jmul_def jdiv_def ndigits_step ndigits_stop

lemmas parse_eval =
  is_digit_def is_ws_def trim_def digit_val_def base_val_def is_base_digit_def
  exp_digits_def parse_mant_def parse_unsigned_def radix_of_def parse_radix_def
  Number_def strip_commas_def

lemmas str_eval =
  digit_char_def pick2_def pick_def norm_digits_def fmt_exp_def fmt_def pos_str_def
  dec_digits_small dec_digits_big shortest_found shortest_next

lemmas engine_eval =
  run_def initial_def inputDigit_def inputDot_def toggleSign_def percent_def setOperator_def
  equals_def onClear_def clearEntry_def clearAll_def Let_def

section \<open>The formatter and the negative zero\<close>

text \<open>
  The display \<^verbatim>\<open>"-0.5"\<close>, reached by the keys 0, point, 5, \<plusminus>, is split at the point and
  its integer part \<^verbatim>\<open>"-0"\<close> is read as the negative zero before it is handed to
  \<^verbatim>\<open>toLocaleString\<close>.
\<close>

lemma formatForDisplay_negative_zero:
  "formatForDisplay toLocaleString ''-0.5'' = toLocaleString NegZero @ ''.5''"
  by (simp add: formatForDisplay_def infinity_sign_def parse_eval num_eval Let_def)

section \<open>Clear\<close>

text \<open>
  What one \<open>onClear\<close> does: the full reset in the idle state, and otherwise the display set
  to \<^verbatim>\<open>"0"\<close> with every other field kept, \<open>waitingForSecond\<close> set exactly when an operator is
  pending. When an accumulator or an operator is held, a second \<open>onClear\<close> changes nothing.
\<close>

lemma onClear_idle_or_dirty:
  "(display s = ''0'' \<and> accumulator s = None \<and> operator s = None \<longrightarrow> onClear s = initial) \<and>
   (display s \<noteq> ''0'' \<or> accumulator s \<noteq> None \<or> operator s \<noteq> None \<longrightarrow>
      onClear s = s\<lparr>display := ''0'', waitingForSecond := (operator s \<noteq> None)\<rparr>)"
  by (simp add: onClear_def clearEntry_def clearAll_def initial_def)

lemma onClear_twice:
  assumes "accumulator s \<noteq> None \<or> operator s \<noteq> None"
  shows "onClear (onClear s) = onClear s"
  using assms by (auto simp: onClear_def clearEntry_def)

text \<open>
  The full reset is out of reach of the states that need it. In every state a sequence of
  button presses leads to, the test of \<open>onClear\<close> sends only the initial state to
  \<open>clearAll\<close>; and an accumulator, once set, is never removed, so no sequence of presses that
  contains an operator key ends in the initial state.
\<close>

lemma no_context_step: "no_context s \<Longrightarrow> no_context (step s e)"
  by (cases e)
     (auto simp: no_context_def inputDigit_def inputDot_def toggleSign_def percent_def
        setOperator_def equals_def onClear_def clearEntry_def clearAll_def Let_def)

lemma no_context_run: "no_context (run es)"
proof (induction es rule: rev_induct)
  case Nil
  show ?case by (simp add: run_def initial_def no_context_def)
next
  case (snoc e es)
  then have "no_context (step (run es) e)" by (rule no_context_step)
  then show ?case by (simp add: run_def)
qed

lemma clearAll_only_at_initial:
  assumes "display (run es) = ''0''" and "accumulator (run es) = None"
    and "operator (run es) = None"
  shows "run es = initial"
  using assms no_context_run [of es] by (simp add: no_context_def initial_def)

lemma accumulator_kept: "accumulator s \<noteq> None \<Longrightarrow> accumulator (step s e) \<noteq> None"
  by (cases e)
     (auto simp: inputDigit_def inputDot_def toggleSign_def percent_def
        setOperator_def equals_def onClear_def clearEntry_def Let_def)

lemma accumulator_kept_foldl:
  "accumulator s \<noteq> None \<Longrightarrow> accumulator (foldl step s es) \<noteq> None"
proof (induction es arbitrary: s)
  case Nil
  then show ?case by simp
next
  case (Cons e es)
  from Cons.prems have "accumulator (step s e) \<noteq> None" by (rule accumulator_kept)
  then have "accumulator (foldl step (step s e) es) \<noteq> None" by (rule Cons.IH)
  then show ?case by simp
qed

lemma no_reset_after_operator: "run (es @ ChooseOperator op # es') \<noteq> initial"
proof -
  have "accumulator (step (run es) (ChooseOperator op)) \<noteq> None"
    by (simp add: setOperator_def Let_def)
  then have "accumulator (foldl step (step (run es) (ChooseOperator op)) es') \<noteq> None"
    by (rule accumulator_kept_foldl)
  then have "accumulator (run (es @ ChooseOperator op # es')) \<noteq> None"
    by (simp add: run_def)
  then show ?thesis by (auto simp: initial_def)
qed

text \<open>
  C1. The claim has a second clear perform the full reset from any state that is not idle.
  After the keys 5 and + the first clear does what the claim says: the display is
  \<^verbatim>\<open>"0"\<close>, the accumulator 5 and the pending addition are kept, and \<open>waitingForSecond\<close> is
  set. The second clear changes nothing: the state is not the initial one, and the keys 3
  and = still show 8.
\<close>

theorem second_clear_keeps_pending_operation:
  "run [Digit ''5'', ChooseOperator Plus, Clear] =
     \<lparr>display = ''0'', accumulator = Some (Fin 5), operator = Some Plus,
      waitingForSecond = True, lastOp = None, lastArg = None\<rparr> \<and>
   run [Digit ''5'', ChooseOperator Plus, Clear, Clear] =
     \<lparr>display = ''0'', accumulator = Some (Fin 5), operator = Some Plus,
      waitingForSecond = True, lastOp = None, lastArg = None\<rparr> \<and>
   run [Digit ''5'', ChooseOperator Plus, Clear, Clear] \<noteq> initial \<and>
   display (run [Digit ''5'', ChooseOperator Plus, Clear, Clear, Digit ''3'', Evaluate]) = ''8''"
  by (simp add: engine_eval parse_eval num_eval str_eval)

section \<open>Division by zero\<close>

text \<open>
  C2. The keys 7, \<div>, 0, = leave positive infinity in the accumulator and no error. The
  display string is \<^verbatim>\<open>"Infinity"\<close>, which is what \<^verbatim>\<open>String(Infinity)\<close> returns, and
  \<open>formatForDisplay\<close> returns that string unchanged whatever the locale: it is not the
  string \<^verbatim>\<open>"\<infinity>"\<close> that the first line of \<open>formatForDisplay\<close> tests for.
\<close>

theorem division_by_zero_display:
  "run [Digit ''7'', ChooseOperator Divide, Digit ''0'', Evaluate] =
     \<lparr>display = ''Infinity'', accumulator = Some PosInf, operator = None,
      waitingForSecond = False, lastOp = Some Divide, lastArg = Some (Fin 0)\<rparr> \<and>
   formatForDisplay toLocaleString
     (display (run [Digit ''7'', ChooseOperator Divide, Digit ''0'', Evaluate])) = ''Infinity'' \<and>
   ''Infinity'' \<noteq> infinity_sign"
  by (simp add: engine_eval parse_eval num_eval str_eval formatForDisplay_def infinity_sign_def)

section \<open>A digit after a non-finite display\<close>

lemma Number_zero: "Number (strip_commas ''0'') = Fin 0"
  by (simp add: parse_eval num_eval)

text \<open>
  C3 as stated fails: after 7, \<div>, 0, = the display is \<^verbatim>\<open>"Infinity"\<close>, which is not
  finite, and the key 5 appends to it.
\<close>

theorem digit_after_infinity_is_appended:
  "\<not> isFinite (Number (strip_commas (display
       (run [Digit ''7'', ChooseOperator Divide, Digit ''0'', Evaluate])))) \<and>
   display (run [Digit ''7'', ChooseOperator Divide, Digit ''0'', Evaluate, Digit ''5''])
     = ''Infinity5''"
  by (simp add: engine_eval parse_eval num_eval str_eval)

text \<open>
  C3, as the code has it. When the display holds a non-finite value, a digit starts a fresh
  number only if \<open>waitingForSecond\<close> is set, as it is right after an operator key.
  Otherwise the digit is appended to the display string while that string has
  fewer than 12 characters, and is ignored from 12 characters on.
\<close>

theorem digit_after_nonfinite:
  assumes "\<not> isFinite (Number (strip_commas (display s)))"
  shows "(waitingForSecond s \<longrightarrow> display (inputDigit d s) = d) \<and>
         (\<not> waitingForSecond s \<and> length (strip_commas (display s)) < 12 \<longrightarrow>
            display (inputDigit d s) = display s @ d) \<and>
         (\<not> waitingForSecond s \<and> 12 \<le> length (strip_commas (display s)) \<longrightarrow>
            inputDigit d s = s)"
proof -
  from assms have "display s \<noteq> ''0''"
    using Number_zero by auto
  then show ?thesis by (simp add: inputDigit_def)
qed

text \<open>
  The three cases: infinity shown while an operator waits for its operand, infinity shown
  after equals, and a twelve-character display that reads as \<open>NaN\<close>.
\<close>

theorem digit_after_nonfinite_witness:
  "display (inputDigit ''5'' \<lparr>display = ''Infinity'', accumulator = Some PosInf,
      operator = Some Plus, waitingForSecond = True, lastOp = None, lastArg = None\<rparr>) = ''5'' \<and>
   display (inputDigit ''5'' \<lparr>display = ''Infinity'', accumulator = Some PosInf,
      operator = None, waitingForSecond = False, lastOp = Some Divide,
      lastArg = Some (Fin 0)\<rparr>) = ''Infinity5'' \<and>
   inputDigit ''5'' \<lparr>display = ''Infinity5555'', accumulator = Some PosInf,
      operator = None, waitingForSecond = False, lastOp = Some Divide,
      lastArg = Some (Fin 0)\<rparr> =
     \<lparr>display = ''Infinity5555'', accumulator = Some PosInf,
      operator = None, waitingForSecond = False, lastOp = Some Divide,
      lastArg = Some (Fin 0)\<rparr>"
proof -
  have inf: "\<not> isFinite (Number (strip_commas ''Infinity''))"
    and nan: "\<not> isFinite (Number (strip_commas ''Infinity5555''))"
    by (simp_all add: parse_eval num_eval)
  have len: "length (strip_commas ''Infinity'') = 8" "length (strip_commas ''Infinity5555'') = 12"
    by (simp_all add: strip_commas_def)
  show ?thesis
    using inf nan
      digit_after_nonfinite [of "\<lparr>display = ''Infinity'', accumulator = Some PosInf,
        operator = Some Plus, waitingForSecond = True, lastOp = None, lastArg = None\<rparr>" "''5''"]
      digit_after_nonfinite [of "\<lparr>display = ''Infinity'', accumulator = Some PosInf,
        operator = None, waitingForSecond = False, lastOp = Some Divide,
        lastArg = Some (Fin 0)\<rparr>" "''5''"]
      digit_after_nonfinite [of "\<lparr>display = ''Infinity5555'', accumulator = Some PosInf,
        operator = None, waitingForSecond = False, lastOp = Some Divide,
        lastArg = Some (Fin 0)\<rparr>" "''5''"]
    by (simp add: len)
qed

section \<open>The digit cap\<close>












section \<open>Operator chaining\<close>

text \<open>
  C5. The keys 2, +, 3, \<times>, 4, = show 20, the value of (2 + 3) \<times> 4. Choosing an operator
  while one is pending, an accumulator exists and no operand is awaited evaluates the
  pending operation on the accumulator and the display value, and stores the result as the
  new accumulator and display, with the new operator pending.
\<close>

theorem left_to_right_chaining:
  "display (run [Digit ''2'', ChooseOperator Plus, Digit ''3'', ChooseOperator Times,
      Digit ''4'', Evaluate]) = ''20'' \<and>
   (operator s = Some opr \<and> accumulator s = Some a \<and> \<not> waitingForSecond s \<longrightarrow>
      setOperator op s =
        \<lparr>display = String (compute a (Number (strip_commas (display s))) opr),
         accumulator = Some (compute a (Number (strip_commas (display s))) opr),
         operator = Some op, waitingForSecond = True, lastOp = None, lastArg = None\<rparr>)"
proof
  show "display (run [Digit ''2'', ChooseOperator Plus, Digit ''3'', ChooseOperator Times,
      Digit ''4'', Evaluate]) = ''20''"
    by (simp add: engine_eval parse_eval num_eval str_eval)
next
  show "operator s = Some opr \<and> accumulator s = Some a \<and> \<not> waitingForSecond s \<longrightarrow>
      setOperator op s =
        \<lparr>display = String (compute a (Number (strip_commas (display s))) opr),
         accumulator = Some (compute a (Number (strip_commas (display s))) opr),
         operator = Some op, waitingForSecond = True, lastOp = None, lastArg = None\<rparr>"
    by (simp add: setOperator_def Let_def)
qed

lemma two_plus_three_state:
  "run [Digit ''2'', ChooseOperator Plus, Digit ''3''] =
     \<lparr>display = ''3'', accumulator = Some (Fin 2), operator = Some Plus,
      waitingForSecond = False, lastOp = None, lastArg = None\<rparr>"
  by (simp add: engine_eval parse_eval num_eval)

text \<open>After 2, +, 3 the key \<times> evaluates 2 + 3 and holds 5.\<close>

theorem left_to_right_chaining_witness:
  "setOperator Times (run [Digit ''2'', ChooseOperator Plus, Digit ''3'']) =
     \<lparr>display = ''5'', accumulator = Some (Fin 5), operator = Some Times,
      waitingForSecond = True, lastOp = None, lastArg = None\<rparr>"
  using left_to_right_chaining
    [of "run [Digit ''2'', ChooseOperator Plus, Digit ''3'']" Plus "Fin 2" Times]
  by (simp add: two_plus_three_state parse_eval num_eval str_eval)

section \<open>Repeated equals\<close>

text \<open>
  C6. The keys 5, +, 3, = show 8; each further = applies the recorded operator and operand
  to the display value, giving 11 and then 14, and leaves \<open>lastOp\<close> and \<open>lastArg\<close> as they
  were. In general, when the first branch of \<open>equals\<close> is closed and \<open>lastOp\<close> and \<open>lastArg\<close>
  are set, \<open>equals\<close> changes the display and the accumulator only.
\<close>

theorem repeat_equals:
  "run [Digit ''5'', ChooseOperator Plus, Digit ''3'', Evaluate] =
     \<lparr>display = ''8'', accumulator = Some (Fin 8), operator = None,
      waitingForSecond = False, lastOp = Some Plus, lastArg = Some (Fin 3)\<rparr> \<and>
   run [Digit ''5'', ChooseOperator Plus, Digit ''3'', Evaluate, Evaluate] =
     \<lparr>display = ''11'', accumulator = Some (Fin 11), operator = None,
      waitingForSecond = False, lastOp = Some Plus, lastArg = Some (Fin 3)\<rparr> \<and>
   run [Digit ''5'', ChooseOperator Plus, Digit ''3'', Evaluate, Evaluate, Evaluate] =
     \<lparr>display = ''14'', accumulator = Some (Fin 14), operator = None,
      waitingForSecond = False, lastOp = Some Plus, lastArg = Some (Fin 3)\<rparr> \<and>
   (\<not> (operator s \<noteq> None \<and> accumulator s \<noteq> None \<and> \<not> waitingForSecond s) \<and>
    lastOp s = Some opr \<and> lastArg s = Some b \<longrightarrow>
      equals s =
        s\<lparr>display := String (compute (Number (strip_commas (display s))) b opr),
          accumulator := Some (compute (Number (strip_commas (display s))) b opr)\<rparr>)"
proof (intro conjI)
  show "\<not> (operator s \<noteq> None \<and> accumulator s \<noteq> None \<and> \<not> waitingForSecond s) \<and>
    lastOp s = Some opr \<and> lastArg s = Some b \<longrightarrow>
      equals s =
        s\<lparr>display := String (compute (Number (strip_commas (display s))) b opr),
          accumulator := Some (compute (Number (strip_commas (display s))) b opr)\<rparr>"
    by (auto simp: equals_def Let_def)
qed (simp_all add: engine_eval parse_eval num_eval str_eval)

text \<open>The general part at the state showing 8: one more = shows 11.\<close>

theorem repeat_equals_witness:
  "equals \<lparr>display = ''8'', accumulator = Some (Fin 8), operator = None,
      waitingForSecond = False, lastOp = Some Plus, lastArg = Some (Fin 3)\<rparr> =
   \<lparr>display = ''11'', accumulator = Some (Fin 11), operator = None,
      waitingForSecond = False, lastOp = Some Plus, lastArg = Some (Fin 3)\<rparr>"
  using repeat_equals [of "\<lparr>display = ''8'', accumulator = Some (Fin 8), operator = None,
      waitingForSecond = False, lastOp = Some Plus, lastArg = Some (Fin 3)\<rparr>" Plus "Fin 3"]
  by (simp add: parse_eval num_eval str_eval)

section \<open>Percent\<close>

lemma three_times_a_tenth:
  "String (jmul (Fin 3) (jdiv (Fin 10) (Fin 100))) = ''0.30000000000000004''"
  by (simp add: num_eval str_eval)

lemma three_plus_ten_state:
  "run [Digit ''3'', ChooseOperator Plus, Digit ''1'', Digit ''0''] =
     \<lparr>display = ''10'', accumulator = Some (Fin 3), operator = Some Plus,
      waitingForSecond = False, lastOp = None, lastArg = None\<rparr>"
  by (simp add: engine_eval parse_eval num_eval)

lemma three_plus_ten_percent:
  "display (run [Digit ''3'', ChooseOperator Plus, Digit ''1'', Digit ''0'', Percent]) = ''0.3''"
  by (simp add: engine_eval parse_eval num_eval str_eval)

text \<open>
  C7 as stated fails on the formula for add and subtract. After the keys 3, +, 1, 0 the
  accumulator is 3 and the display value 10; percent shows \<^verbatim>\<open>"0.3"\<close>, the double nearest
  to 30 / 100, whereas accumulator \<times> (display value / 100), the product of 3 and the double
  nearest to 0.1, is written \<^verbatim>\<open>"0.30000000000000004"\<close>.
\<close>

theorem percent_multiplies_before_dividing:
  "accumulator (run [Digit ''3'', ChooseOperator Plus, Digit ''1'', Digit ''0'']) = Some (Fin 3) \<and>
   operator (run [Digit ''3'', ChooseOperator Plus, Digit ''1'', Digit ''0'']) = Some Plus \<and>
   Number (strip_commas (display
     (run [Digit ''3'', ChooseOperator Plus, Digit ''1'', Digit ''0'']))) = Fin 10 \<and>
   display (run [Digit ''3'', ChooseOperator Plus, Digit ''1'', Digit ''0'', Percent]) = ''0.3'' \<and>
   String (jmul (Fin 3) (jdiv (Fin 10) (Fin 100))) = ''0.30000000000000004'' \<and>
   display (run [Digit ''3'', ChooseOperator Plus, Digit ''1'', Digit ''0'', Percent]) \<noteq>
     String (jmul (Fin 3) (jdiv (Fin 10) (Fin 100)))"
proof -
  have ten: "Number (strip_commas ''10'') = Fin 10"
    by (simp add: parse_eval num_eval)
  show ?thesis
    by (simp add: three_plus_ten_state three_plus_ten_percent three_times_a_tenth ten)
qed

text \<open>
  C7, as the code has it. When the display value is not finite, \<open>percent\<close> changes nothing.
  With an accumulator and a pending add or subtract the new display is
  (accumulator \<times> display value) / 100, the product taken first; with a pending multiply or
  divide, or no pending operator, it is display value / 100. Only the display changes. The
  keys 100, +, 10, % show 10 and the keys 100, \<times>, 10, % show 0.1.
\<close>

theorem percent_contextual:
  "(\<not> isFinite (Number (strip_commas (display s))) \<longrightarrow> percent s = s) \<and>
   (isFinite (Number (strip_commas (display s))) \<and> accumulator s = Some a \<and>
    (operator s = Some Plus \<or> operator s = Some Minus) \<longrightarrow>
      percent s =
        s\<lparr>display := String (jdiv (jmul a (Number (strip_commas (display s)))) (Fin 100))\<rparr>) \<and>
   (isFinite (Number (strip_commas (display s))) \<and>
    (operator s = Some Times \<or> operator s = Some Divide \<or> operator s = None) \<longrightarrow>
      percent s = s\<lparr>display := String (jdiv (Number (strip_commas (display s))) (Fin 100))\<rparr>) \<and>
   display (run [Digit ''1'', Digit ''0'', Digit ''0'', ChooseOperator Plus,
      Digit ''1'', Digit ''0'', Percent]) = ''10'' \<and>
   display (run [Digit ''1'', Digit ''0'', Digit ''0'', ChooseOperator Times,
      Digit ''1'', Digit ''0'', Percent]) = ''0.1''"
proof (intro conjI)
  show "display (run [Digit ''1'', Digit ''0'', Digit ''0'', ChooseOperator Plus,
      Digit ''1'', Digit ''0'', Percent]) = ''10''"
    by (simp add: engine_eval parse_eval num_eval str_eval)
  show "display (run [Digit ''1'', Digit ''0'', Digit ''0'', ChooseOperator Times,
      Digit ''1'', Digit ''0'', Percent]) = ''0.1''"
    by (simp add: engine_eval parse_eval num_eval str_eval)
qed (auto simp: percent_def Let_def)

text \<open>
  The general parts at three states: 10 % under a pending addition to 50, 10 % under a
  pending multiplication, and percent on a display showing infinity.
\<close>

theorem percent_contextual_witness:
  "percent \<lparr>display = ''10'', accumulator = Some (Fin 50), operator = Some Plus,
      waitingForSecond = False, lastOp = None, lastArg = None\<rparr> =
   \<lparr>display = ''5'', accumulator = Some (Fin 50), operator = Some Plus,
      waitingForSecond = False, lastOp = None, lastArg = None\<rparr> \<and>
   percent \<lparr>display = ''10'', accumulator = Some (Fin 50), operator = Some Times,
      waitingForSecond = False, lastOp = None, lastArg = None\<rparr> =
   \<lparr>display = ''0.1'', accumulator = Some (Fin 50), operator = Some Times,
      waitingForSecond = False, lastOp = None, lastArg = None\<rparr> \<and>
   percent \<lparr>display = ''Infinity'', accumulator = Some PosInf, operator = None,
      waitingForSecond = False, lastOp = Some Divide, lastArg = Some (Fin 0)\<rparr> =
   \<lparr>display = ''Infinity'', accumulator = Some PosInf, operator = None,
      waitingForSecond = False, lastOp = Some Divide, lastArg = Some (Fin 0)\<rparr>"
proof -
  have ten: "Number (strip_commas ''10'') = Fin 10"
    and inf: "Number (strip_commas ''Infinity'') = PosInf"
    by (simp_all add: parse_eval num_eval)
  have five: "String (jdiv (jmul (Fin 50) (Fin 10)) (Fin 100)) = ''5''"
    and tenth: "String (jdiv (Fin 10) (Fin 100)) = ''0.1''"
    by (simp_all add: num_eval str_eval)
  have a: "percent \<lparr>display = ''10'', accumulator = Some (Fin 50), operator = Some Plus,
      waitingForSecond = False, lastOp = None, lastArg = None\<rparr> =
   \<lparr>display = ''5'', accumulator = Some (Fin 50), operator = Some Plus,
      waitingForSecond = False, lastOp = None, lastArg = None\<rparr>"
    using percent_contextual [of "\<lparr>display = ''10'', accumulator = Some (Fin 50),
      operator = Some Plus, waitingForSecond = False, lastOp = None, lastArg = None\<rparr>" "Fin 50"]
    by (simp add: ten five)
  have b: "percent \<lparr>display = ''10'', accumulator = Some (Fin 50), operator = Some Times,
      waitingForSecond = False, lastOp = None, lastArg = None\<rparr> =
   \<lparr>display = ''0.1'', accumulator = Some (Fin 50), operator = Some Times,
      waitingForSecond = False, lastOp = None, lastArg = None\<rparr>"
    using percent_contextual [of "\<lparr>display = ''10'', accumulator = Some (Fin 50),
      operator = Some Times, waitingForSecond = False, lastOp = None, lastArg = None\<rparr>" "Fin 50"]
    by (simp add: ten tenth)
  have c: "percent \<lparr>display = ''Infinity'', accumulator = Some PosInf, operator = None,
      waitingForSecond = False, lastOp = Some Divide, lastArg = Some (Fin 0)\<rparr> =
   \<lparr>display = ''Infinity'', accumulator = Some PosInf, operator = None,
      waitingForSecond = False, lastOp = Some Divide, lastArg = Some (Fin 0)\<rparr>"
    using percent_contextual [of "\<lparr>display = ''Infinity'', accumulator = Some PosInf,
      operator = None, waitingForSecond = False, lastOp = Some Divide,
      lastArg = Some (Fin 0)\<rparr>" "Fin 0"]
    by (simp add: inf)
  from a b c show ?thesis by blast
qed

section \<open>Choosing an operator and pressing equals at once\<close>

text \<open>
  C8. For every state and operator, \<open>setOperator op\<close> followed at once by \<open>equals\<close> leaves
  the state produced by \<open>setOperator\<close> unchanged: \<open>setOperator\<close> sets \<open>waitingForSecond\<close>,
  which closes the first branch of \<open>equals\<close>, and clears \<open>lastOp\<close> and \<open>lastArg\<close>, which
  closes the repeat branch.
\<close>

theorem chooseOperator_then_evaluate_noop:
  "equals (setOperator op s) = setOperator op s"
  by (simp add: equals_def setOperator_def Let_def)

section \<open>At most one decimal point\<close>

text \<open>
  \<open>String\<close> writes digits, at most one point, and possibly an exponent part made of
  \<^verbatim>\<open>e\<close>, a sign and digits; every transition keeps the count of points at most one.
\<close>

lemma points_append: "points (xs @ ys) = points xs + points ys"
  by (simp add: points_def)

lemma points_zero_iff: "points str = 0 \<longleftrightarrow> CHR ''.'' \<notin> set str"
  by (auto simp: points_def filter_empty_conv)

lemma digit_char_in: "digit_char d \<in> set ''0123456789''"
proof -
  have "nat (d mod 10) < length ''0123456789''" by simp
  then show ?thesis unfolding digit_char_def by (rule nth_mem)
qed

lemma digit_char_no_point: "digit_char d \<noteq> CHR ''.''"
  using digit_char_in [of d] by auto

lemma dec_digits_no_point: "CHR ''.'' \<notin> set (dec_digits n)"
proof (induction n rule: dec_digits.induct)
  case (1 n)
  show ?case
  proof (cases "n < 10")
    case True
    then show ?thesis by (simp add: dec_digits_small digit_char_no_point [symmetric])
  next
    case False
    with 1 show ?thesis by (simp add: dec_digits_big digit_char_no_point [symmetric])
  qed
qed

lemma points_dec_digits: "points (dec_digits n) = 0"
  by (simp add: points_zero_iff dec_digits_no_point)

lemma points_take: "points ds = 0 \<Longrightarrow> points (take n ds) = 0"
  by (auto simp: points_zero_iff dest: in_set_takeD)

lemma points_drop: "points ds = 0 \<Longrightarrow> points (drop n ds) = 0"
  by (auto simp: points_zero_iff dest: in_set_dropD)

lemma points_replicate_zero: "points (replicate n (CHR ''0'')) = 0"
  by (simp add: points_zero_iff)

lemma points_Nil: "points [] = 0"
  by (simp add: points_def)

lemma points_Cons: "points (c # cs) = (if c = CHR ''.'' then Suc (points cs) else points cs)"
  by (simp add: points_def)

lemmas points_simps =
  points_Nil points_Cons points_append points_dec_digits points_take points_drop
  points_replicate_zero

lemma points_fmt_exp:
  assumes "points ds = 0"
  shows "points (fmt_exp ds e) \<le> Suc 0"
  using assms by (simp add: fmt_exp_def points_simps)

lemma points_fmt:
  assumes "points ds = 0"
  shows "points (fmt ds n) \<le> Suc 0"
  using assms points_fmt_exp [OF assms, of "n - 1"] by (simp add: fmt_def points_simps)

lemma points_pos_str: "points (pos_str x) \<le> Suc 0"
proof (cases "shortest x (floor_log10 x + 1) 1")
  case (Pair s n)
  then show ?thesis by (simp add: pos_str_def points_fmt points_dec_digits)
qed

lemma points_String: "points (String v) \<le> Suc 0"
  using points_pos_str [of "- (case v of Fin a \<Rightarrow> a | _ \<Rightarrow> 0)"]
        points_pos_str [of "case v of Fin a \<Rightarrow> a | _ \<Rightarrow> 0"]
  by (cases v) (simp_all add: points_simps)

lemma points_strip_commas: "points (strip_commas str) = points str"
  by (induction str) (simp_all add: strip_commas_def points_simps)

lemma points_digit_key: "d \<in> set digit_keys \<Longrightarrow> points d = 0"
  by (auto simp: digit_keys_def points_simps)

lemma points_inputDigit:
  "d \<in> set digit_keys \<Longrightarrow> points (display s) \<le> 1 \<Longrightarrow> points (display (inputDigit d s)) \<le> 1"
  by (simp add: inputDigit_def points_append points_digit_key)

lemma points_inputDot: "points (display s) \<le> 1 \<Longrightarrow> points (display (inputDot s)) \<le> 1"
  by (simp add: inputDot_def points_simps points_zero_iff [symmetric])

lemma points_drop_le: "points (drop n str) \<le> points str"
proof -
  have "points str = points (take n str) + points (drop n str)"
    by (simp add: points_append [symmetric])
  then show ?thesis by simp
qed

lemma points_toggleSign: "points (display s) \<le> 1 \<Longrightarrow> points (display (toggleSign s)) \<le> 1"
  using points_drop_le [of 1 "strip_commas (display s)"]
  by (simp add: toggleSign_def Let_def points_simps points_strip_commas)

lemma points_percent: "points (display s) \<le> 1 \<Longrightarrow> points (display (percent s)) \<le> 1"
  by (simp add: percent_def Let_def points_String)

lemma points_setOperator: "points (display s) \<le> 1 \<Longrightarrow> points (display (setOperator op s)) \<le> 1"
  by (simp add: setOperator_def Let_def points_String)

lemma points_equals: "points (display s) \<le> 1 \<Longrightarrow> points (display (equals s)) \<le> 1"
  by (simp add: equals_def Let_def points_String)

lemma points_onClear: "points (display (onClear s)) \<le> 1"
  by (simp add: onClear_def clearEntry_def clearAll_def points_simps)

lemma inputDot_twice: "inputDot (inputDot s) = inputDot s"
  by (simp add: inputDot_def)

lemma points_step:
  assumes "key e" and "points (display s) \<le> 1"
  shows "points (display (step s e)) \<le> 1"
proof (cases e)
  case (Digit d)
  with assms(1) have "d \<in> set digit_keys" by simp
  from points_inputDigit [OF this assms(2)] show ?thesis using Digit by simp
next
  case DecimalPoint
  from points_inputDot [OF assms(2)] show ?thesis using DecimalPoint by simp
next
  case ToggleSign
  from points_toggleSign [OF assms(2)] show ?thesis using ToggleSign by simp
next
  case Percent
  from points_percent [OF assms(2)] show ?thesis using Percent by simp
next
  case (ChooseOperator op)
  from points_setOperator [OF assms(2)] show ?thesis using ChooseOperator by simp
next
  case Evaluate
  from points_equals [OF assms(2)] show ?thesis using Evaluate by simp
next
  case Clear
  from points_onClear [of s] show ?thesis using Clear by simp
qed

lemma points_run: "list_all key es \<Longrightarrow> points (display (run es)) \<le> 1"
proof (induction es rule: rev_induct)
  case Nil
  show ?case by (simp add: run_def initial_def points_simps)
next
  case (snoc e es)
  then have "key e" and "points (display (run es)) \<le> 1" by simp_all
  then have "points (display (step (run es) e)) \<le> 1" by (rule points_step)
  then show ?case by (simp add: run_def)
qed

text \<open>
  C9. In every state reached from the initial state by a sequence of button presses the
  display holds at most one decimal point, and in every state pressing the decimal point
  twice shows the same display as pressing it once.
\<close>

theorem one_decimal_point:
  "(list_all key es \<longrightarrow> points (display (run es)) \<le> 1) \<and>
   display (inputDot (inputDot s)) = display (inputDot s)"
  using points_run [of es] by (simp add: inputDot_twice)

text \<open>The keys 1, point, point, 5, point show \<^verbatim>\<open>"1.5"\<close>.\<close>

theorem one_decimal_point_witness:
  "list_all key [Digit ''1'', DecimalPoint, DecimalPoint, Digit ''5'', DecimalPoint] \<and>
   display (run [Digit ''1'', DecimalPoint, DecimalPoint, Digit ''5'', DecimalPoint]) = ''1.5'' \<and>
   points (display (run [Digit ''1'', DecimalPoint, DecimalPoint, Digit ''5'', DecimalPoint])) \<le> 1"
proof -
  have k: "list_all key [Digit ''1'', DecimalPoint, DecimalPoint, Digit ''5'', DecimalPoint]"
    by (simp add: digit_keys_def)
  have d: "display (run [Digit ''1'', DecimalPoint, DecimalPoint, Digit ''5'', DecimalPoint]) = ''1.5''"
    by (simp add: engine_eval strip_commas_def)
  from k d one_decimal_point [of "[Digit ''1'', DecimalPoint, DecimalPoint, Digit ''5'', DecimalPoint]"]
  show ?thesis by blast
qed

section \<open>What clear-entry leaves alone\<close>

text \<open>
  C10. In a state that is not idle, \<open>onClear\<close> changes the display and \<open>waitingForSecond\<close>
  only: accumulator, operator, \<open>lastOp\<close> and \<open>lastArg\<close> are as before. So with no operator
  pending and a recorded last operation, = pressed right after clear applies that operation
  to the cleared display value 0 and the recorded operand.
\<close>

theorem clear_entry_frame:
  assumes "display s \<noteq> ''0'' \<or> accumulator s \<noteq> None \<or> operator s \<noteq> None"
  shows "onClear s = s\<lparr>display := ''0'', waitingForSecond := (operator s \<noteq> None)\<rparr> \<and>
         accumulator (onClear s) = accumulator s \<and> operator (onClear s) = operator s \<and>
         lastOp (onClear s) = lastOp s \<and> lastArg (onClear s) = lastArg s \<and>
         (operator s = None \<and> lastOp s = Some opr \<and> lastArg s = Some b \<longrightarrow>
            equals (onClear s) =
              (onClear s)\<lparr>display := String (compute (Fin 0) b opr),
                          accumulator := Some (compute (Fin 0) b opr)\<rparr>)"
proof -
  from assms have c: "onClear s = s\<lparr>display := ''0'', waitingForSecond := (operator s \<noteq> None)\<rparr>"
    by (simp add: onClear_def clearEntry_def)
  show ?thesis
    unfolding c by (simp add: equals_def Let_def Number_zero)
qed

text \<open>After 5, +, 3, = the display is 8; clear and then = show 0 + 3.\<close>

theorem clear_entry_frame_witness:
  "equals (onClear \<lparr>display = ''8'', accumulator = Some (Fin 8), operator = None,
      waitingForSecond = False, lastOp = Some Plus, lastArg = Some (Fin 3)\<rparr>) =
   \<lparr>display = ''3'', accumulator = Some (Fin 3), operator = None,
      waitingForSecond = False, lastOp = Some Plus, lastArg = Some (Fin 3)\<rparr>"
proof -
  let ?s = "\<lparr>display = ''8'', accumulator = Some (Fin 8), operator = None,
      waitingForSecond = False, lastOp = Some Plus, lastArg = Some (Fin 3)\<rparr>"
  have dirty: "display ?s \<noteq> ''0'' \<or> accumulator ?s \<noteq> None \<or> operator ?s \<noteq> None"
    by simp
  note frame = clear_entry_frame [OF dirty, of Plus "Fin 3"]
  from frame
  have cleared: "onClear ?s = ?s\<lparr>display := ''0'', waitingForSecond := (operator ?s \<noteq> None)\<rparr>"
    by (rule conjunct1)
  from frame [THEN conjunct2, THEN conjunct2, THEN conjunct2, THEN conjunct2, THEN conjunct2]
  have "equals (onClear ?s) =
      (onClear ?s)\<lparr>display := String (compute (Fin 0) (Fin 3) Plus),
                   accumulator := Some (compute (Fin 0) (Fin 3) Plus)\<rparr>"
    by simp
  then show ?thesis
    unfolding cleared by (simp add: num_eval str_eval)
qed

end
